theory Spec2Isabelle
  imports Main "HOL-Library.Char_ord" "HOL-Library.List_Lexorder"
begin

section \<open>Strings, the character class and the substitution\<close>

text \<open>
  A Python \<open>str\<close> is modelled as a \<open>string\<close>; a \<open>char\<close> stands for the code point
  with the same number (0 to 255). \<open>lower_char\<close> is \<open>str.lower\<close> on that range: the
  letters A to Z and the upper-case letters of the Latin-1 block (192 to 222 without the
  multiplication sign 215) move up by 32, every other code point stays.
\<close>

definition lower_char :: "char \<Rightarrow> char" where
  "lower_char c =
     (let n = (of_char c :: nat)
      in if (65 \<le> n \<and> n \<le> 90) \<or> (192 \<le> n \<and> n \<le> 222 \<and> n \<noteq> 215)
         then char_of (n + 32) else c)"

definition lower :: "string \<Rightarrow> string" where
  "lower s = map lower_char s"

text \<open>The character class \<^verbatim>\<open>[a-z0-9_]\<close> of the pattern in \<open>to_attribute\<close>.\<close>

definition allowed :: "char \<Rightarrow> bool" where
  "allowed c \<longleftrightarrow> c \<in> set ''abcdefghijklmnopqrstuvwxyz0123456789_''"

text \<open>
  \<^verbatim>\<open>re.sub(r"[^a-z0-9_]+", "_", s)\<close>: the scan goes left to right; a character of the
  class is copied; at a character outside the class the greedy \<^verbatim>\<open>+\<close> matches up to
  the next character of the class (or the end), one underscore is written for the whole
  match, and the scan goes on after it.
\<close>

function re_sub :: "string \<Rightarrow> string" where
  "re_sub [] = []"
| "re_sub (c # cs) =
     (if allowed c then c # re_sub cs
      else CHR ''_'' # re_sub (dropWhile (\<lambda>d. \<not> allowed d) cs))"
  by pat_completeness auto
termination
  by (relation "measure length") (auto simp: length_dropWhile_le less_Suc_eq_le)

section \<open>The attribute namer\<close>

text \<open>
  \<open>get_language()\<close> of the translation service returns a language code or \<open>None\<close>;
  it is the first argument of every function that calls it. An optional string is
  falsy when it is \<open>None\<close> or empty, and \<open>x or y\<close> is \<open>x\<close> when \<open>x\<close> is truthy, else
  \<open>y\<close>. In an f-string \<open>None\<close> is formatted as the text \<open>None\<close>.
\<close>

definition truthy :: "string option \<Rightarrow> bool" where
  "truthy x = (case x of None \<Rightarrow> False | Some s \<Rightarrow> s \<noteq> [])"

definition py_or :: "string option \<Rightarrow> string option \<Rightarrow> string option" where
  "py_or x y = (if truthy x then x else y)"

definition py_format :: "string option \<Rightarrow> string" where
  "py_format x = (case x of None \<Rightarrow> ''None'' | Some s \<Rightarrow> s)"

definition to_attribute :: "string option \<Rightarrow> string \<Rightarrow> string option \<Rightarrow> string" where
  "to_attribute get_language name language_code =
     (let language = py_or language_code get_language
      in re_sub (lower (name @ ''_'' @ py_format language)))"

text \<open>
  The namer in the words of the specification, for comparison: the text is cut into its
  maximal runs of characters that are all inside or all outside the class, and every
  run outside the class is replaced by one underscore.
\<close>

function runs :: "('a \<Rightarrow> bool) \<Rightarrow> 'a list \<Rightarrow> 'a list list" where
  "runs P [] = []"
| "runs P (x # xs) =
     (x # takeWhile (\<lambda>y. P y = P x) xs) # runs P (dropWhile (\<lambda>y. P y = P x) xs)"
  by pat_completeness auto
termination
  by (relation "measure (\<lambda>(P, xs). length xs)") (auto simp: length_dropWhile_le less_Suc_eq_le)

definition collapse_run :: "string \<Rightarrow> string" where
  "collapse_run r = (if list_all allowed r then r else ''_'')"

definition spec_normalise :: "string \<Rightarrow> string" where
  "spec_normalise s = concat (map collapse_run (runs allowed (lower s)))"

section \<open>Model instances and the default accessors\<close>

text \<open>
  A model instance is its attribute dictionary. \<open>getattr\<close> raises \<open>AttributeError\<close>
  for a missing attribute, \<open>setattr\<close> binds the attribute. Indexing an empty list
  raises \<open>IndexError\<close>.
\<close>

datatype error = AttributeError string | IndexError

type_synonym 'v py_object = "string \<rightharpoonup> 'v"

definition getattr :: "'v py_object \<Rightarrow> string \<Rightarrow> error + 'v" where
  "getattr self a = (case self a of None \<Rightarrow> Inl (AttributeError a) | Some v \<Rightarrow> Inr v)"

definition setattr :: "'v py_object \<Rightarrow> string \<Rightarrow> 'v \<Rightarrow> 'v py_object" where
  "setattr self a v = self(a \<mapsto> v)"

text \<open>
  The wrapped field prototype is kept as what its \<open>deconstruct()\<close> returns: the class,
  the positional and the keyword arguments of its constructor call. A keyword value of
  a generated field is either a plain value or the lazy label built by
  \<open>_verbose_name_maybe_language_code\<close>, which is evaluated each time it is shown.
  In the descriptor record \<open>tf_field\<close>, \<open>tf_specific\<close> and \<open>tf_fields\<close> are the
  attributes \<open>_field\<close>, \<open>_specific\<close> and \<open>fields\<close>. With the default factories,
  \<open>__get__\<close> on an instance is \<open>translated_attrgetter\<close> and \<open>__set__\<close> is
  \<open>translated_attrsetter\<close>, both with the descriptor's own name and the descriptor.
\<close>

record field_proto =
  proto_class :: string
  proto_args :: "string list"
  proto_kwargs :: "string \<rightharpoonup> string"

datatype kwvalue = Plain string | LazyLabel string string

record translated_field =
  tf_field :: field_proto
  tf_specific :: "string \<rightharpoonup> (string \<rightharpoonup> string)"
  languages :: "string list"
  creation_counter :: int
  tf_fields :: "string list"
  short_description :: string

text \<open>
  \<open>translated_attrgetter(name, field)\<close> applied to an instance. The inner \<open>or\<close>
  reads \<open>field.languages[0]\<close> only when no language is active.
\<close>

definition translated_attrgetter ::
  "string \<Rightarrow> translated_field \<Rightarrow> string option \<Rightarrow> 'v py_object \<Rightarrow> error + 'v" where
  "translated_attrgetter name field get_language self =
     (if truthy get_language
      then getattr self (to_attribute get_language name get_language)
      else case languages field of
             [] \<Rightarrow> Inl IndexError
           | l # _ \<Rightarrow> getattr self (to_attribute get_language name (Some l)))"

text \<open>\<open>translated_attrsetter(name, field)\<close> applied to an instance and a value.\<close>

definition translated_attrsetter ::
  "string \<Rightarrow> translated_field \<Rightarrow> string option \<Rightarrow> 'v py_object \<Rightarrow> 'v \<Rightarrow> 'v py_object" where
  "translated_attrsetter name field get_language self v =
     setattr self (to_attribute get_language name None) v"

section \<open>The display toggle\<close>

text \<open>
  The context variable \<open>_show_language_code\<close> has no default: it is unset (\<open>None\<close>) or
  holds a boolean. \<open>set\<close> returns a token that remembers the old state, \<open>reset\<close> puts
  the token's state back, \<open>get(d)\<close> returns \<open>d\<close> when the variable is unset.
\<close>

type_synonym ctxvar = "bool option"

definition ctxvar_set :: "bool \<Rightarrow> ctxvar \<Rightarrow> ctxvar \<times> ctxvar" where
  "ctxvar_set v c = (c, Some v)"

definition ctxvar_reset :: "ctxvar \<Rightarrow> ctxvar \<Rightarrow> ctxvar" where
  "ctxvar_reset token c = token"

definition ctxvar_get :: "ctxvar \<Rightarrow> bool \<Rightarrow> bool" where
  "ctxvar_get c d = (case c of None \<Rightarrow> d | Some b \<Rightarrow> b)"

text \<open>
  \<open>with show_language_code(show): body\<close>. The generator runs up to its \<open>yield\<close> on
  entry. When the body returns, the generator is resumed and runs the \<open>reset\<close>. When
  the body raises, the exception is thrown into the generator at the \<open>yield\<close>; no
  handler and no \<open>finally\<close> encloses the \<open>yield\<close>, so the generator ends there and
  the exception propagates with the variable as the body left it.
\<close>

definition show_language_code ::
  "bool \<Rightarrow> (ctxvar \<Rightarrow> ('e + 'a) \<times> ctxvar) \<Rightarrow> ctxvar \<Rightarrow> ('e + 'a) \<times> ctxvar" where
  "show_language_code show body c =
     (let (token, c1) = ctxvar_set show c;
          (r, c2) = body c1
      in case r of
           Inl e \<Rightarrow> (Inl e, c2)
         | Inr v \<Rightarrow> (Inr v, ctxvar_reset token c2))"

text \<open>
  The lazy label: \<open>verbose_name_fn\<close> is the inner function, run at every evaluation
  with the toggle of that moment. \<open>capfirst\<close> is the framework's helper and is a
  parameter here.
\<close>

definition verbose_name_fn ::
  "(string \<Rightarrow> string) \<Rightarrow> string \<Rightarrow> string \<Rightarrow> ctxvar \<Rightarrow> string" where
  "verbose_name_fn capfirst verbose_name language_code c =
     (if ctxvar_get c False then capfirst verbose_name @ '' ['' @ language_code @ '']''
      else verbose_name)"

definition verbose_name_maybe_language_code :: "string \<Rightarrow> string \<Rightarrow> kwvalue" where
  "verbose_name_maybe_language_code verbose_name language_code =
     LazyLabel verbose_name language_code"

fun evaluate :: "(string \<Rightarrow> string) \<Rightarrow> ctxvar \<Rightarrow> kwvalue \<Rightarrow> string" where
  "evaluate capfirst c (Plain s) = s"
| "evaluate capfirst c (LazyLabel verbose_name language_code) =
     verbose_name_fn capfirst verbose_name language_code c"

text \<open>
  The framework's \<open>capfirst\<close> on texts whose first character is an ASCII character:
  the empty text is returned as it is, otherwise the first character is upper-cased.
\<close>

definition upper_ascii :: "char \<Rightarrow> char" where
  "upper_ascii c =
     (let n = (of_char c :: nat) in if 97 \<le> n \<and> n \<le> 122 then char_of (n - 32) else c)"

definition capfirst_ascii :: "string \<Rightarrow> string" where
  "capfirst_ascii x = (case x of [] \<Rightarrow> [] | c # cs \<Rightarrow> upper_ascii c # cs)"

section \<open>The descriptor\<close>

text \<open>
  \<open>TranslatedField.__init__\<close>: \<open>languages or (lang[0] for lang in settings.LANGUAGES)\<close>
  takes the setting when the argument is \<open>None\<close> or empty; \<open>specific or {}\<close> likewise.
  The second component of the result is the new value of \<open>Field.creation_counter\<close>.
\<close>

definition TranslatedField_init ::
  "(string \<times> string) list \<Rightarrow> field_proto \<Rightarrow> (string \<rightharpoonup> (string \<rightharpoonup> string)) option \<Rightarrow>
   string list option \<Rightarrow> int \<Rightarrow> translated_field \<times> int" where
  "TranslatedField_init settings_LANGUAGES field specific langs Field_creation_counter =
     (let ls = (case langs of
                  Some (l # rest) \<Rightarrow> l # rest
                | _ \<Rightarrow> map fst settings_LANGUAGES)
      in (\<lparr> tf_field = field,
            tf_specific = (case specific of None \<Rightarrow> Map.empty | Some d \<Rightarrow> d),
            languages = ls,
            creation_counter = Field_creation_counter,
            tf_fields = [],
            short_description = [] \<rparr>,
          Field_creation_counter + int (length ls)))"

text \<open>
  A generated storage field: the constructor call, the language tag and the ordering
  counter set on it by \<open>setattr\<close>; what the constructor of the wrapped field's class
  does besides is the framework's and is not modelled. The owning class keeps the registrations made by
  \<open>f.contribute_to_class(cls, attr)\<close>, in the order of the calls, and the descriptors
  bound by \<open>setattr(cls, name, self)\<close>.
\<close>

record storage_field =
  sf_class :: string
  sf_args :: "string list"
  sf_kwargs :: "string \<rightharpoonup> kwvalue"
  sf_language_code :: string
  sf_creation_counter :: int

record model_class =
  registered :: "(string \<times> storage_field) list"
  descriptors :: "string \<rightharpoonup> translated_field"

definition dict_pop :: "('k \<rightharpoonup> 'v) \<Rightarrow> 'k \<Rightarrow> 'v \<Rightarrow> 'v \<times> ('k \<rightharpoonup> 'v)" where
  "dict_pop d k dflt = (case d k of None \<Rightarrow> (dflt, d) | Some v \<Rightarrow> (v, d(k := None)))"

definition dict_get :: "('k \<rightharpoonup> 'v) \<Rightarrow> 'k \<Rightarrow> 'v \<Rightarrow> 'v" where
  "dict_get d k dflt = (case d k of None \<Rightarrow> dflt | Some v \<Rightarrow> v)"

definition setdefault :: "('k \<rightharpoonup> 'v) \<Rightarrow> 'k \<Rightarrow> 'v \<Rightarrow> ('k \<rightharpoonup> 'v)" where
  "setdefault d k v = (case d k of None \<Rightarrow> d(k \<mapsto> v) | Some _ \<Rightarrow> d)"

text \<open>
  The loop of \<open>contribute_to_class\<close> over \<open>enumerate(self.languages)\<close>: the result
  lists, per language, the attribute name and the field registered under it.
\<close>

fun generate ::
  "translated_field \<Rightarrow> string option \<Rightarrow> string \<Rightarrow> string list \<Rightarrow> (string \<rightharpoonup> string) \<Rightarrow> string \<Rightarrow>
   nat \<Rightarrow> string list \<Rightarrow> (string \<times> storage_field) list" where
  "generate self get_language name args kwargs verbose_name index [] = []"
| "generate self get_language name args kwargs verbose_name index (language_code # rest) =
     (let field_kw = map_option Plain \<circ> (kwargs ++ dict_get (tf_specific self) language_code Map.empty);
          field_kw = setdefault field_kw ''verbose_name''
                       (verbose_name_maybe_language_code verbose_name language_code);
          f = \<lparr> sf_class = proto_class (tf_field self),
                sf_args = args,
                sf_kwargs = field_kw,
                sf_language_code = language_code,
                sf_creation_counter = creation_counter self + int index \<rparr>;
          attr = to_attribute get_language name (Some language_code)
      in (attr, f) # generate self get_language name args kwargs verbose_name (Suc index) rest)"

definition contribute_to_class ::
  "translated_field \<Rightarrow> string option \<Rightarrow> model_class \<Rightarrow> string \<Rightarrow> model_class \<times> translated_field" where
  "contribute_to_class self get_language cls name =
     (let args = proto_args (tf_field self);
          (verbose_name, kwargs) = dict_pop (proto_kwargs (tf_field self)) ''verbose_name'' name;
          new = generate self get_language name args kwargs verbose_name 0 (languages self);
          self' = self\<lparr> tf_fields := map fst new, short_description := verbose_name \<rparr>
      in (cls\<lparr> registered := registered cls @ new,
               descriptors := (descriptors cls)(name \<mapsto> self') \<rparr>,
          self'))"

text \<open>
  The base label of a field attached under \<open>name\<close>: the value of
  \<open>kwargs.pop("verbose_name", name)\<close> in \<open>contribute_to_class\<close>.
\<close>

definition base_label :: "translated_field \<Rightarrow> string \<Rightarrow> string" where
  "base_label self name = dict_get (proto_kwargs (tf_field self)) ''verbose_name'' name"

section \<open>Keyword filtering for accessor factories\<close>

text \<open>
  A factory is its \<open>__name__\<close>, the parameter names of \<open>inspect.signature\<close> and what a
  call with positional and keyword arguments returns. The keyword arguments are the
  items of the \<open>kwargs\<close> dictionary in their order.

  \<open>warnings.warn\<close> consults the interpreter's warnings filter, which is not part of
  this code: its action for the warning issued here is a parameter. With the action
  \<open>error\<close> the call of \<open>warnings.warn\<close> raises the warning as an exception, and the
  statements after it do not run. With any other action \<open>warnings.warn\<close> returns; the
  warning is then added to the warnings issued. A warning is its category and its
  message.
\<close>

record ('a, 'r) factory =
  fn_name :: string
  fn_params :: "string list"
  fn_call :: "'a list \<Rightarrow> (string \<times> 'a) list \<Rightarrow> 'r"

datatype filter_action = Action_error | Action_other

definition join :: "string \<Rightarrow> string list \<Rightarrow> string" where
  "join sep xs = (case xs of [] \<Rightarrow> [] | y # ys \<Rightarrow> y @ concat (map (\<lambda>z. sep @ z) ys))"

definition unsupported :: "string list \<Rightarrow> (string \<times> 'a) list \<Rightarrow> string list" where
  "unsupported params kwargs = [k \<leftarrow> map fst kwargs. k \<notin> set params]"

definition unsupported_warning :: "('a, 'r) factory \<Rightarrow> (string \<times> 'a) list \<Rightarrow> string \<times> string" where
  "unsupported_warning fn kwargs =
     (''DeprecationWarning'',
      fn_name fn @ '' has unsupported arguments: '' @
      join '', '' (sort (remdups (unsupported (fn_params fn) kwargs))))"

text \<open>
  \<open>_optional_keywords(fn, *args, **kwargs)\<close>. The result is the exception raised
  (\<open>Inl\<close>) or what the factory returned (\<open>Inr\<close>), with the warnings issued.
\<close>

definition optional_keywords ::
  "filter_action \<Rightarrow> ('a, 'r) factory \<Rightarrow> 'a list \<Rightarrow> (string \<times> 'a) list \<Rightarrow>
   ((string \<times> string) + 'r) \<times> (string \<times> string) list" where
  "optional_keywords action fn args kwargs =
     (let params = fn_params fn
      in if unsupported params kwargs \<noteq> []
         then (case action of
                 Action_error \<Rightarrow> (Inl (unsupported_warning fn kwargs), [])
               | Action_other \<Rightarrow>
                   (Inr (fn_call fn args [(key, v) \<leftarrow> kwargs. key \<in> set params]),
                    [unsupported_warning fn kwargs]))
         else (Inr (fn_call fn args [(key, v) \<leftarrow> kwargs. key \<in> set params]), []))"

section \<open>Example inputs\<close>

text \<open>
  A character field translated into English and German, declared while the ordering
  counter stands at 7, an empty model class and an instance holding both storage
  attributes.
\<close>

definition example_proto :: field_proto where
  "example_proto = \<lparr> proto_class = ''CharField'', proto_args = [],
                      proto_kwargs = [''max_length'' \<mapsto> ''200''] \<rparr>"

definition example_field :: translated_field where
  "example_field =
     fst (TranslatedField_init [(''fr'', ''French'')] example_proto None (Some [''en'', ''de'']) 7)"

definition example_class :: model_class where
  "example_class = \<lparr> registered = [], descriptors = Map.empty \<rparr>"

definition example_object :: "string py_object" where
  "example_object = [''title_en'' \<mapsto> ''Hello'', ''title_de'' \<mapsto> ''Hallo'']"

text \<open>
  A second field whose two language codes differ only in the separator, a field whose
  first language code is the empty text, a field whose first language code is the text
  \<open>None\<close>, a wrapped operation that raises, and an accessor factory that declares the parameters
  \<open>name\<close> and \<open>field\<close> and returns the arguments it was called with.
\<close>

definition clashing_field :: translated_field where
  "clashing_field =
     fst (TranslatedField_init [] example_proto None (Some [''de-ch'', ''de_ch'']) 0)"

definition empty_code_field :: translated_field where
  "empty_code_field =
     fst (TranslatedField_init [] example_proto None (Some ['''', ''en'']) 0)"

definition none_code_field :: translated_field where
  "none_code_field =
     fst (TranslatedField_init [] example_proto None (Some [''None'', ''en'']) 0)"

definition raising_body :: "ctxvar \<Rightarrow> (string + unit) \<times> ctxvar" where
  "raising_body c = (Inl ''Http404'', c)"

definition example_factory :: "(string, string list) factory" where
  "example_factory = \<lparr> fn_name = ''my_getter'', fn_params = [''name'', ''field''],
                        fn_call = (\<lambda>args kwargs. args @ map fst kwargs) \<rparr>"

section \<open>Properties of the substitution\<close>

lemma allowed_underscore: "allowed CHR ''_''"
  by (simp add: allowed_def)

lemma re_sub_allowed: "c \<in> set (re_sub s) \<Longrightarrow> allowed c"
  by (induction s rule: re_sub.induct) (auto simp: allowed_underscore split: if_splits)

lemma dropWhile_sep:
  "\<not> P c \<Longrightarrow> dropWhile P (xs @ c # b) = dropWhile P xs @ c # b"
  by (induction xs) auto

lemma re_sub_append_sep:
  "allowed c \<Longrightarrow> re_sub (a @ c # b) = re_sub a @ c # re_sub b"
proof (induction a rule: re_sub.induct)
  case 1
  then show ?case by simp
next
  case (2 x xs)
  show ?case
  proof (cases "allowed x")
    case True
    with 2 show ?thesis by simp
  next
    case False
    with 2 show ?thesis by (simp add: dropWhile_sep)
  qed
qed

lemma lower_append: "lower (a @ b) = lower a @ lower b"
  by (simp add: lower_def)

lemma lower_underscore: "lower (CHR ''_'' # s) = CHR ''_'' # lower s"
proof -
  have "lower_char CHR ''_'' = CHR ''_''" by code_simp
  then show ?thesis by (simp add: lower_def)
qed

lemma lower_None: "lower ''None'' = ''none''"
  by code_simp

lemma re_sub_none: "re_sub ''none'' = ''none''"
  by code_simp

lemma lower_char_allowed: "allowed c \<Longrightarrow> lower_char c = c"
  unfolding allowed_def by (auto simp: lower_char_def)

lemma re_sub_id: "list_all allowed s \<Longrightarrow> re_sub s = s"
  by (induction s) auto

lemma lower_id: "list_all allowed s \<Longrightarrow> lower s = s"
  by (induction s) (auto simp: lower_def lower_char_allowed)

lemma to_attribute_split:
  "to_attribute gl name lc = re_sub (lower name) @ CHR ''_'' # re_sub (lower (py_format (py_or lc gl)))"
  by (simp add: to_attribute_def lower_append lower_underscore re_sub_append_sep allowed_underscore)

text \<open>
  \<open>runs\<close> cuts a list into its maximal runs: the runs give the list back, none is
  empty, \<open>P\<close> is constant on each and changes from each run to the next.
\<close>

lemma concat_runs: "concat (runs P s) = s"
  by (induction P s rule: runs.induct) auto

lemma runs_nonempty: "r \<in> set (runs P s) \<Longrightarrow> r \<noteq> []"
  by (induction P s rule: runs.induct) auto

lemma runs_uniform: "r \<in> set (runs P s) \<Longrightarrow> x \<in> set r \<Longrightarrow> P x = P (hd r)"
  by (induction P s rule: runs.induct) (auto dest: set_takeWhileD)

lemma hd_runs: "s \<noteq> [] \<Longrightarrow> hd (hd (runs P s)) = hd s"
  by (cases s) auto

lemma runs_Nil_iff: "runs P s = [] \<longleftrightarrow> s = []"
  by (cases s) auto

lemma runs_maximal:
  "Suc i < length (runs P s) \<Longrightarrow> P (hd (runs P s ! Suc i)) \<noteq> P (hd (runs P s ! i))"
proof (induction P s arbitrary: i rule: runs.induct)
  case (1 P)
  then show ?case by simp
next
  case (2 P x xs)
  let ?rest = "dropWhile (\<lambda>y. P y = P x) xs"
  show ?case
  proof (cases i)
    case 0
    with 2 have ne: "?rest \<noteq> []" by (auto simp: runs_Nil_iff)
    then have "P (hd ?rest) \<noteq> P x" using hd_dropWhile [of "\<lambda>y. P y = P x" xs] by blast
    moreover have "hd (runs P ?rest ! 0) = hd ?rest"
      using ne hd_runs [of ?rest P] by (simp add: hd_conv_nth runs_Nil_iff)
    ultimately show ?thesis using 0 by simp
  next
    case (Suc j)
    with 2 show ?thesis by simp
  qed
qed

lemma re_sub_takeWhile:
  "re_sub s = takeWhile allowed s @ re_sub (dropWhile allowed s)"
  by (induction s) auto

text \<open>The substitution of the source is the normalisation by maximal runs.\<close>

lemma re_sub_runs: "re_sub s = concat (map collapse_run (runs allowed s))"
proof (induction P \<equiv> allowed s rule: runs.induct)
  case 1
  then show ?case by simp
next
  case (2 c cs)
  show ?case
  proof (cases "allowed c")
    case True
    have "re_sub (c # cs) = c # takeWhile allowed cs @ re_sub (dropWhile allowed cs)"
      using True re_sub_takeWhile [of cs] by simp
    moreover have "collapse_run (c # takeWhile allowed cs) = c # takeWhile allowed cs"
      using True by (auto simp: collapse_run_def list_all_iff dest: set_takeWhileD)
    ultimately show ?thesis using True 2 by simp
  next
    case False
    then show ?thesis using 2 by (simp add: collapse_run_def)
  qed
qed

lemma to_attribute_spec:
  "l \<noteq> [] \<Longrightarrow> to_attribute gl name (Some l) = spec_normalise (name @ ''_'' @ l)"
  by (simp add: to_attribute_def spec_normalise_def re_sub_runs py_or_def truthy_def py_format_def)

section \<open>The namer: normal form and the empty language code\<close>

text \<open>
  Claim C5. For every logical name and every non-empty explicit language code,
  \<open>to_attribute\<close> returns the text \<open>{name}_{language}\<close> lower-cased, with every
  maximal run of characters outside \<^verbatim>\<open>[a-z0-9_]\<close> replaced by one underscore; the
  result has only characters of \<^verbatim>\<open>[a-z0-9_]\<close>; and the result is the same whatever
  the active language is, the only input of the function besides its arguments.
\<close>

theorem to_attribute_normal_form:
  "language_code \<noteq> [] \<Longrightarrow>
     to_attribute get_language name (Some language_code)
       = spec_normalise (name @ ''_'' @ language_code)
   \<and> list_all allowed (to_attribute get_language name (Some language_code))
   \<and> to_attribute get_language name (Some language_code)
       = to_attribute other_language name (Some language_code)"
proof -
  assume ne: "language_code \<noteq> []"
  have "list_all allowed (to_attribute get_language name (Some language_code))"
    by (auto simp: list_all_iff to_attribute_def dest: re_sub_allowed)
  moreover have "to_attribute get_language name (Some language_code)
      = to_attribute other_language name (Some language_code)"
    using ne by (simp add: to_attribute_spec)
  ultimately show ?thesis using ne by (simp add: to_attribute_spec)
qed

theorem to_attribute_normal_form_witness:
  "''de-CH'' \<noteq> [] \<and> to_attribute None ''Title'' (Some ''de-CH'') = ''title_de_ch''
   \<and> spec_normalise (''Title'' @ ''_'' @ ''de-CH'') = ''title_de_ch''
   \<and> list_all allowed ''title_de_ch''
   \<and> to_attribute (Some ''fr'') ''Title'' (Some ''de-CH'') = ''title_de_ch''"
proof -
  have a: "to_attribute None ''Title'' (Some ''de-CH'') = ''title_de_ch''" by code_simp
  have b: "''de-CH'' \<noteq> []" by simp
  show ?thesis
    using to_attribute_normal_form [OF b, of None "''Title''" "Some ''fr''"] a b by metis
qed

text \<open>
  Claim C10. For every logical name, \<open>to_attribute\<close> with the empty text as the explicit
  language code returns what it returns with no language code: the name is built from
  the active language (the text \<open>None\<close> when no language is active), not from the
  empty text.
\<close>

theorem to_attribute_empty_code:
  "to_attribute get_language name (Some []) = to_attribute get_language name None
   \<and> to_attribute get_language name (Some [])
       = re_sub (lower (name @ ''_'' @ py_format get_language))"
  by (simp add: to_attribute_def py_or_def truthy_def)

section \<open>Properties of the generated fields\<close>

lemma length_generate:
  "length (generate self gl name args kwargs vn k ls) = length ls"
  by (induction ls arbitrary: k) (simp_all add: Let_def)

lemma map_fst_generate:
  "map fst (generate self gl name args kwargs vn k ls) = map (\<lambda>l. to_attribute gl name (Some l)) ls"
  by (induction ls arbitrary: k) (simp_all add: Let_def)

lemma generate_nth:
  "i < length ls \<Longrightarrow>
     generate self gl name args kwargs vn k ls ! i =
       (to_attribute gl name (Some (ls ! i)),
        \<lparr> sf_class = proto_class (tf_field self),
          sf_args = args,
          sf_kwargs = setdefault (map_option Plain \<circ> (kwargs ++ dict_get (tf_specific self) (ls ! i) Map.empty))
                        ''verbose_name'' (verbose_name_maybe_language_code vn (ls ! i)),
          sf_language_code = ls ! i,
          sf_creation_counter = creation_counter self + int (k + i) \<rparr>)"
proof (induction ls arbitrary: k i)
  case Nil
  then show ?case by simp
next
  case (Cons l ls)
  show ?case
  proof (cases i)
    case 0
    then show ?thesis by (simp add: Let_def comp_def)
  next
    case (Suc j)
    with Cons.prems have "j < length ls" by simp
    from Cons.IH [OF this, of "Suc k"] Suc show ?thesis by (simp add: Let_def)
  qed
qed

lemma fields_contribute:
  "tf_fields (snd (contribute_to_class self gl cls name)) =
     map (\<lambda>l. to_attribute gl name (Some l)) (languages self)"
  by (simp add: contribute_to_class_def Let_def map_fst_generate split: prod.splits)

lemma to_attribute_code:
  "l \<noteq> [] \<Longrightarrow> to_attribute gl name (Some l) = re_sub (lower name) @ CHR ''_'' # re_sub (lower l)"
  by (simp add: to_attribute_split py_or_def truthy_def py_format_def)

lemma to_attribute_no_language:
  "to_attribute None name None = re_sub (lower name) @ ''_none''"
proof -
  have "re_sub (lower ''None'') = ''none''" by code_simp
  then show ?thesis by (simp add: to_attribute_split py_or_def truthy_def py_format_def)
qed

lemma example_languages: "languages example_field = [''en'', ''de'']"
  by (simp add: example_field_def TranslatedField_init_def)

lemma example_names:
  "to_attribute gl ''title'' (Some ''en'') = ''title_en''"
  "to_attribute gl ''title'' (Some ''de'') = ''title_de''"
  "to_attribute None ''title'' None = ''title_none''"
  "to_attribute (Some ''de'') ''title'' None = ''title_de''"
proof -
  have a: "re_sub (lower ''title'') = ''title''" by code_simp
  have b: "re_sub (lower ''en'') = ''en''" by code_simp
  have c: "re_sub (lower ''de'') = ''de''" by code_simp
  have d: "re_sub (lower ''None'') = ''none''" by code_simp
  show "to_attribute gl ''title'' (Some ''en'') = ''title_en''"
    by (simp add: to_attribute_split py_or_def truthy_def py_format_def a b)
  show "to_attribute gl ''title'' (Some ''de'') = ''title_de''"
    by (simp add: to_attribute_split py_or_def truthy_def py_format_def a c)
  show "to_attribute None ''title'' None = ''title_none''"
    by (simp add: to_attribute_split py_or_def truthy_def py_format_def a d)
  show "to_attribute (Some ''de'') ''title'' None = ''title_de''"
    by (simp add: to_attribute_split py_or_def truthy_def py_format_def a c)
qed

section \<open>The default accessors\<close>

lemma empty_code_languages: "languages empty_code_field = ['''', ''en'']"
  by (simp add: empty_code_field_def TranslatedField_init_def)

text \<open>
  Claim C2, as stated, fails: a field whose languages are the empty text and \<open>en\<close>,
  attached while \<open>de\<close> is active, has the storage attributes \<open>title_de\<close> and
  \<open>title_en\<close>. Read while no language is active, the getter looks up \<open>title_none\<close>
  and raises \<open>AttributeError\<close>; the first storage attribute holds \<open>Hallo\<close>.
\<close>

theorem attrgetter_empty_first_code:
  "languages empty_code_field = ['''', ''en'']
   \<and> tf_fields (snd (contribute_to_class empty_code_field (Some ''de'') example_class ''title''))
       = [''title_de'', ''title_en'']
   \<and> getattr example_object ''title_de'' = Inr ''Hallo''
   \<and> translated_attrgetter ''title''
        (snd (contribute_to_class empty_code_field (Some ''de'') example_class ''title''))
        None example_object
       = Inl (AttributeError ''title_none'')"
proof -
  have a: "to_attribute (Some ''de'') ''title'' (Some '''') = ''title_de''" by code_simp
  have b: "to_attribute None ''title'' (Some '''') = ''title_none''" by code_simp
  have l: "languages (snd (contribute_to_class empty_code_field (Some ''de'') example_class ''title''))
      = ['''', ''en'']"
    by (simp add: contribute_to_class_def Let_def empty_code_languages split: prod.splits)
  show ?thesis
    by (simp add: empty_code_languages fields_contribute a example_names
          translated_attrgetter_def truthy_def l b getattr_def example_object_def)
qed

text \<open>
  Claim C2, amended. For every instance of a model whose field has a non-empty
  language list with a non-empty first language code, the default getter, read while
  no language is active, returns what \<open>getattr\<close> returns for the storage attribute of
  the first configured language: the first name generated at class attachment,
  whatever language was active then, which is the name \<open>to_attribute\<close> gives for that
  language code.
\<close>

theorem attrgetter_falls_back_to_first_language:
  assumes "languages field \<noteq> []" and "hd (languages field) \<noteq> []"
  shows "translated_attrgetter name field None self
       = getattr self (hd (tf_fields (snd (contribute_to_class field get_language cls name))))
   \<and> hd (tf_fields (snd (contribute_to_class field get_language cls name)))
       = to_attribute None name (Some (hd (languages field)))
   \<and> to_attribute None name (Some (hd (languages field)))
       = re_sub (lower name) @ ''_'' @ re_sub (lower (hd (languages field)))"
proof -
  from assms(1) obtain l ls where ls: "languages field = l # ls"
    by (cases "languages field") auto
  with assms(2) have l: "l \<noteq> []" by simp
  have a: "translated_attrgetter name field None self = getattr self (to_attribute None name (Some l))"
    by (simp add: translated_attrgetter_def truthy_def ls)
  have b: "hd (tf_fields (snd (contribute_to_class field get_language cls name)))
      = to_attribute None name (Some l)"
    using l by (simp add: fields_contribute ls to_attribute_code)
  have c: "to_attribute None name (Some l) = re_sub (lower name) @ ''_'' @ re_sub (lower l)"
    using l by (simp add: to_attribute_code)
  show ?thesis using a b c by (simp add: ls)
qed

theorem attrgetter_falls_back_to_first_language_witness:
  "languages example_field = [''en'', ''de'']
   \<and> translated_attrgetter ''title'' example_field None example_object = Inr ''Hello''
   \<and> hd (tf_fields (snd (contribute_to_class example_field (Some ''de'') example_class ''title'')))
       = ''title_en''"
proof -
  have ne: "languages example_field \<noteq> []" by (simp add: example_languages)
  have ne': "hd (languages example_field) \<noteq> []" by (simp add: example_languages)
  have g: "getattr example_object ''title_en'' = Inr ''Hello''"
    by (simp add: getattr_def example_object_def)
  show ?thesis
    using attrgetter_falls_back_to_first_language
            [OF ne ne', of "''title''" example_object "Some ''de''" example_class] g
    by (simp add: example_languages example_names)
qed

text \<open>
  Claim C3. For a field with the languages \<open>en\<close> and \<open>de\<close>, attached to a class, the
  default setter run while \<open>de\<close> is active binds the second generated attribute (the
  normalised name followed by \<open>_de\<close>) and no other: every other attribute of the
  instance, the \<open>en\<close> attribute among them, keeps its value.
\<close>

theorem attrsetter_writes_active_language_only:
  assumes "languages field = [''en'', ''de'']"
    and "contribute_to_class field get_language cls name = (cls', field')"
  shows "tf_fields field' = [re_sub (lower name) @ ''_en'', re_sub (lower name) @ ''_de'']
    \<and> translated_attrsetter name field' (Some ''de'') self v = self(tf_fields field' ! 1 \<mapsto> v)
    \<and> (\<forall>a. a \<noteq> tf_fields field' ! 1 \<longrightarrow>
          translated_attrsetter name field' (Some ''de'') self v a = self a)
    \<and> translated_attrsetter name field' (Some ''de'') self v (tf_fields field' ! 0)
        = self (tf_fields field' ! 0)"
proof -
  have en: "re_sub (lower ''en'') = ''en''" by code_simp
  have de: "re_sub (lower ''de'') = ''de''" by code_simp
  have f: "tf_fields field' = [re_sub (lower name) @ ''_en'', re_sub (lower name) @ ''_de'']"
    using fields_contribute [of field get_language cls name] assms
    by (simp add: to_attribute_code en de)
  have w: "to_attribute (Some ''de'') name None = re_sub (lower name) @ ''_de''"
    by (simp add: to_attribute_split py_or_def truthy_def py_format_def de)
  show ?thesis
    by (simp add: f translated_attrsetter_def setattr_def w)
qed

theorem attrsetter_writes_active_language_only_witness:
  "languages example_field = [''en'', ''de'']
   \<and> translated_attrsetter ''title''
        (snd (contribute_to_class example_field None example_class ''title''))
        (Some ''de'') example_object ''Servus''
      = [''title_en'' \<mapsto> ''Hello'', ''title_de'' \<mapsto> ''Servus'']"
proof -
  have a: "re_sub (lower ''title'') = ''title''" by code_simp
  have m: "[''title_en'' \<mapsto> ''Hello'', ''title_de'' \<mapsto> ''Hallo'', ''title_de'' \<mapsto> ''Servus'']
      = [''title_en'' \<mapsto> ''Hello'', ''title_de'' \<mapsto> ''Servus'']" by simp
  show ?thesis
    using attrsetter_writes_active_language_only [OF example_languages surjective_pairing,
              of None example_class "''title''" example_object "''Servus''"]
    by (simp add: a example_languages example_object_def)
qed


lemma none_code_languages: "languages none_code_field = [''None'', ''en'']"
  by (simp add: none_code_field_def TranslatedField_init_def)

text \<open>
  Claim C9, as stated, fails twice. For a field with the languages \<open>None\<close> and \<open>en\<close>
  the first storage attribute is \<open>title_none\<close>, and the setter run while no language
  is active binds that very attribute. For the logical name \<open>Title\<close> the attribute
  bound is \<open>title_none\<close>, not \<open>Title_none\<close>.
\<close>

theorem attrsetter_none_is_first_language:
  "languages none_code_field = [''None'', ''en'']
   \<and> tf_fields (snd (contribute_to_class none_code_field None example_class ''title''))
       = [''title_none'', ''title_en'']
   \<and> translated_attrsetter ''title'' none_code_field None example_object ''Salut''
       = example_object(''title_none'' \<mapsto> ''Salut'')
   \<and> translated_attrsetter ''Title'' none_code_field None example_object ''Salut''
       = example_object(''title_none'' \<mapsto> ''Salut'')
   \<and> ''title_none'' \<noteq> ''Title'' @ ''_none''"
proof -
  have a: "to_attribute None ''title'' (Some ''None'') = ''title_none''" by code_simp
  have b: "to_attribute None ''Title'' None = ''title_none''" by code_simp
  show ?thesis
    by (simp add: none_code_languages fields_contribute a b example_names
          translated_attrsetter_def setattr_def)
qed

text \<open>
  Claim C9, amended. For every instance, the default setter run while no language is
  active binds the attribute whose name is the normalised logical name followed by
  \<open>_none\<close>, the name \<open>to_attribute\<close> gives for the text \<open>None\<close>; it is \<open>{name}_none\<close>
  when the name has only characters of \<^verbatim>\<open>[a-z0-9_]\<close>. The configured languages are
  not read. When the language list is non-empty and its first code is non-empty and
  does not normalise to \<open>none\<close>, the first language's storage attribute is another
  attribute and keeps its value.
\<close>

theorem attrsetter_without_language:
  "translated_attrsetter name field None self v = self(re_sub (lower name) @ ''_none'' \<mapsto> v)
   \<and> to_attribute None name (Some ''None'') = re_sub (lower name) @ ''_none'' 
   \<and> (list_all allowed name \<longrightarrow> re_sub (lower name) @ ''_none'' = name @ ''_none'')
   \<and> (languages field \<noteq> [] \<and> hd (languages field) \<noteq> []
        \<and> re_sub (lower (hd (languages field))) \<noteq> ''none'' \<longrightarrow>
         hd (tf_fields (snd (contribute_to_class field get_language cls name)))
           \<noteq> re_sub (lower name) @ ''_none''
       \<and> translated_attrsetter name field None self v
            (hd (tf_fields (snd (contribute_to_class field get_language cls name))))
           = self (hd (tf_fields (snd (contribute_to_class field get_language cls name)))))"
proof -
  have a: "translated_attrsetter name field None self v = self(re_sub (lower name) @ ''_none'' \<mapsto> v)"
    by (simp add: translated_attrsetter_def setattr_def to_attribute_no_language)
  have n: "re_sub (lower ''None'') = ''none''" by code_simp
  have b: "to_attribute None name (Some ''None'') = re_sub (lower name) @ ''_none''"
    by (simp add: to_attribute_code n)
  have c: "list_all allowed name \<Longrightarrow> re_sub (lower name) = name"
    by (simp add: lower_id re_sub_id)
  have d: "hd (tf_fields (snd (contribute_to_class field get_language cls name)))
             \<noteq> re_sub (lower name) @ ''_none''"
    if "languages field \<noteq> []" "hd (languages field) \<noteq> []"
       "re_sub (lower (hd (languages field))) \<noteq> ''none''"
    using that by (simp add: fields_contribute hd_map to_attribute_code)
  show ?thesis using a b c d by simp
qed

theorem attrsetter_without_language_witness:
  "translated_attrsetter ''title'' example_field None example_object ''Salut''
     = example_object(''title_none'' \<mapsto> ''Salut'')
   \<and> list_all allowed ''title''
   \<and> languages example_field \<noteq> [] \<and> hd (languages example_field) \<noteq> []
   \<and> re_sub (lower (hd (languages example_field))) \<noteq> ''none''
   \<and> hd (tf_fields (snd (contribute_to_class example_field None example_class ''title'')))
       \<noteq> ''title_none''
   \<and> translated_attrsetter ''title'' example_field None example_object ''Salut''
        (hd (tf_fields (snd (contribute_to_class example_field None example_class ''title''))))
       = example_object
          (hd (tf_fields (snd (contribute_to_class example_field None example_class ''title''))))"
proof -
  have a: "re_sub (lower ''title'') = ''title''" by code_simp
  have b: "re_sub (lower ''en'') = ''en''" by code_simp
  have c: "list_all allowed ''title''" by (simp add: allowed_def)
  show ?thesis
    using attrsetter_without_language [of "''title''" example_field example_object "''Salut''" None example_class] c
    by (simp add: a b example_languages)
qed

section \<open>The ordering counter\<close>

text \<open>
  Claim C4. Construction stores the ordering counter found and advances the global
  counter by the number of configured languages. Class attachment then registers one
  storage field per configured language, in the order of the languages; the i-th is
  registered under the name of the i-th language, carries its language code and the
  counter value of the construction plus i, inside the block construction reserved.
  The counter values of the generated fields are strictly increasing, hence distinct.
\<close>

theorem creation_counter_block:
  assumes "TranslatedField_init settings_LANGUAGES field specific langs counter = (self, counter')"
    and "contribute_to_class self get_language cls name = (cls', self')"
  shows "creation_counter self = counter
    \<and> counter' = counter + int (length (languages self))
    \<and> (\<exists>new. registered cls' = registered cls @ new
          \<and> length new = length (languages self)
          \<and> (\<forall>i < length (languages self).
                fst (new ! i) = to_attribute get_language name (Some (languages self ! i))
              \<and> sf_language_code (snd (new ! i)) = languages self ! i
              \<and> sf_creation_counter (snd (new ! i)) = counter + int i
              \<and> sf_creation_counter (snd (new ! i)) < counter')
          \<and> sorted_wrt (<) (map (\<lambda>p. sf_creation_counter (snd p)) new)
          \<and> distinct (map (\<lambda>p. sf_creation_counter (snd p)) new))"
proof -
  have c: "creation_counter self = counter"
    and c': "counter' = counter + int (length (languages self))"
    using assms(1) by (auto simp: TranslatedField_init_def Let_def)
  obtain vn kwargs where pop: "dict_pop (proto_kwargs (tf_field self)) ''verbose_name'' name = (vn, kwargs)"
    by (cases "dict_pop (proto_kwargs (tf_field self)) ''verbose_name'' name") auto
  define new where "new = generate self get_language name (proto_args (tf_field self)) kwargs vn 0 (languages self)"
  have r: "registered cls' = registered cls @ new"
    using assms(2) by (auto simp: contribute_to_class_def Let_def pop new_def)
  have len: "length new = length (languages self)"
    by (simp add: new_def length_generate)
  have nth: "fst (new ! i) = to_attribute get_language name (Some (languages self ! i))
           \<and> sf_language_code (snd (new ! i)) = languages self ! i
           \<and> sf_creation_counter (snd (new ! i)) = counter + int i
           \<and> sf_creation_counter (snd (new ! i)) < counter'"
    if "i < length (languages self)" for i
    using that by (simp add: new_def generate_nth c c')
  have srt: "sorted_wrt (<) (map (\<lambda>p. sf_creation_counter (snd p)) new)"
    using nth len by (simp add: sorted_wrt_iff_nth_less)
  then have "distinct (map (\<lambda>p. sf_creation_counter (snd p)) new)"
    using strict_sorted_iff by blast
  with c c' r len nth srt show ?thesis by blast
qed

theorem creation_counter_block_witness:
  "TranslatedField_init [(''fr'', ''French'')] example_proto None (Some [''en'', ''de'']) 7
     = (example_field, 9)
   \<and> creation_counter example_field = 7
   \<and> map (\<lambda>p. (fst p, sf_language_code (snd p), sf_creation_counter (snd p)))
         (registered (fst (contribute_to_class example_field None example_class ''title'')))
       = [(''title_en'', ''en'', 7), (''title_de'', ''de'', 8)]"
proof -
  have i: "TranslatedField_init [(''fr'', ''French'')] example_proto None (Some [''en'', ''de'']) 7
     = (example_field, 9)"
    by (simp add: example_field_def TranslatedField_init_def)
  obtain new where
    "registered (fst (contribute_to_class example_field None example_class ''title''))
       = registered example_class @ new"
    "length new = length (languages example_field)"
    "\<forall>i < length (languages example_field).
        fst (new ! i) = to_attribute None ''title'' (Some (languages example_field ! i))
      \<and> sf_language_code (snd (new ! i)) = languages example_field ! i
      \<and> sf_creation_counter (snd (new ! i)) = 7 + int i
      \<and> sf_creation_counter (snd (new ! i)) < 9"
    using creation_counter_block [OF i surjective_pairing, of None example_class "''title''"] by blast
  then have "length new = 2"
    and "fst (new ! 0) = ''title_en'' \<and> sf_language_code (snd (new ! 0)) = ''en''
         \<and> sf_creation_counter (snd (new ! 0)) = 7"
    and "fst (new ! 1) = ''title_de'' \<and> sf_language_code (snd (new ! 1)) = ''de''
         \<and> sf_creation_counter (snd (new ! 1)) = 8"
    and "registered (fst (contribute_to_class example_field None example_class ''title'')) = new"
    by (simp_all add: example_languages example_names example_class_def)
  moreover from \<open>length new = 2\<close> obtain x y where "new = [x, y]"
    by (cases new; cases "tl new"; cases "tl (tl new)") auto
  ultimately show ?thesis
    using i creation_counter_block [OF i surjective_pairing, of None example_class "''title''"] by simp
qed

section \<open>Uniqueness of the generated names\<close>

lemma distinct_map_prefix:
  "distinct (map (\<lambda>x. p @ f x) xs) \<longleftrightarrow> distinct (map f xs)"
  by (simp add: distinct_map inj_on_def)

lemma clashing_languages: "languages clashing_field = [''de-ch'', ''de_ch'']"
  by (simp add: clashing_field_def TranslatedField_init_def)

text \<open>
  Claim C6, as stated, fails: the language codes \<open>de-ch\<close> and \<open>de_ch\<close> both give the
  storage attribute \<open>title_de_ch\<close>.
\<close>

theorem generated_names_collide:
  "tf_fields (snd (contribute_to_class clashing_field None example_class ''title''))
     = [''title_de_ch'', ''title_de_ch'']
   \<and> \<not> distinct (tf_fields (snd (contribute_to_class clashing_field None example_class ''title'')))"
proof -
  have a: "to_attribute None ''title'' (Some ''de-ch'') = ''title_de_ch''" by code_simp
  have b: "to_attribute None ''title'' (Some ''de_ch'') = ''title_de_ch''" by code_simp
  show ?thesis by (simp add: fields_contribute clashing_languages a b)
qed

text \<open>
  Claim C6, amended. For a field whose language codes are all non-empty, the generated
  storage attribute names are pairwise distinct if and only if the normalised language
  codes (lower-cased, runs outside \<^verbatim>\<open>[a-z0-9_]\<close> collapsed) are pairwise distinct.
\<close>

theorem generated_names_distinct_iff:
  "\<forall>l \<in> set (languages field). l \<noteq> [] \<Longrightarrow>
     distinct (tf_fields (snd (contribute_to_class field get_language cls name)))
       \<longleftrightarrow> distinct (map (\<lambda>l. re_sub (lower l)) (languages field))"
proof -
  assume ne: "\<forall>l \<in> set (languages field). l \<noteq> []"
  have "map (\<lambda>l. to_attribute get_language name (Some l)) (languages field)
      = map (\<lambda>l. (re_sub (lower name) @ ''_'') @ re_sub (lower l)) (languages field)"
    using ne by (simp add: to_attribute_code)
  then have "distinct (tf_fields (snd (contribute_to_class field get_language cls name)))
      \<longleftrightarrow> distinct (map (\<lambda>l. (re_sub (lower name) @ ''_'') @ re_sub (lower l)) (languages field))"
    by (simp only: fields_contribute)
  also have "\<dots> \<longleftrightarrow> distinct (map (\<lambda>l. re_sub (lower l)) (languages field))"
    by (rule distinct_map_prefix)
  finally show ?thesis .
qed

theorem generated_names_distinct_iff_witness:
  "languages example_field = [''en'', ''de'']
   \<and> map (\<lambda>l. re_sub (lower l)) (languages example_field) = [''en'', ''de'']
   \<and> distinct (tf_fields (snd (contribute_to_class example_field None example_class ''title'')))"
proof -
  have ne: "\<forall>l \<in> set (languages example_field). l \<noteq> []" by (simp add: example_languages)
  have en: "re_sub (lower ''en'') = ''en''" by code_simp
  have de: "re_sub (lower ''de'') = ''de''" by code_simp
  have m: "map (\<lambda>l. re_sub (lower l)) (languages example_field) = [''en'', ''de'']"
    by (simp add: example_languages en de)
  then have d: "distinct (map (\<lambda>l. re_sub (lower l)) (languages example_field))"
    by simp
  show ?thesis
    using generated_names_distinct_iff [OF ne, of None example_class "''title''"]
      example_languages m d by blast
qed

section \<open>The label of a generated field\<close>

lemma dict_pop_fst: "fst (dict_pop d k dflt) = dict_get d k dflt"
  by (simp add: dict_pop_def dict_get_def split: option.splits)

lemma dict_pop_snd: "snd (dict_pop d k dflt) k = None"
  by (simp add: dict_pop_def split: option.splits)

lemma registered_contribute:
  "registered (fst (contribute_to_class self gl cls name)) =
     registered cls @ generate self gl name (proto_args (tf_field self))
       (snd (dict_pop (proto_kwargs (tf_field self)) ''verbose_name'' name))
       (dict_get (proto_kwargs (tf_field self)) ''verbose_name'' name) 0 (languages self)"
  by (simp add: contribute_to_class_def Let_def dict_pop_fst [symmetric] split: prod.splits)

text \<open>
  Claim C7, as stated, fails: for the base label \<open>title\<close> and the language \<open>en\<close> the
  label shown while the toggle is on is \<open>Title [en]\<close>, which is not the base label with
  the bracketed code appended, with or without a space.
\<close>

theorem generated_label_capitalised:
  "sf_kwargs (snd (registered (fst (contribute_to_class example_field None example_class ''title'')) ! 0))
       ''verbose_name'' = Some (LazyLabel ''title'' ''en'')
   \<and> evaluate capfirst_ascii (Some True) (LazyLabel ''title'' ''en'') = ''Title [en]''
   \<and> base_label example_field ''title'' = ''title''
   \<and> ''Title [en]'' \<noteq> ''title'' @ ''[en]''
   \<and> ''Title [en]'' \<noteq> ''title'' @ '' [en]''"
proof -
  have c: "capfirst_ascii ''title'' = ''Title''" by code_simp
  have b: "base_label example_field ''title'' = ''title''"
    by (simp add: base_label_def example_field_def TranslatedField_init_def example_proto_def dict_get_def)
  have "sf_kwargs (snd (registered (fst (contribute_to_class example_field None example_class ''title'')) ! 0))
       ''verbose_name'' = Some (LazyLabel ''title'' ''en'')"
    using b
    by (simp add: registered_contribute example_class_def example_languages Let_def setdefault_def
          verbose_name_maybe_language_code_def base_label_def dict_pop_snd map_add_def dict_get_def
          example_field_def TranslatedField_init_def)
  then show ?thesis using b c by (simp add: verbose_name_fn_def ctxvar_get_def)
qed

text \<open>
  Claim C7, amended. For every generated storage field whose language has no
  \<open>verbose_name\<close> override, the label evaluated while the toggle is on is \<open>capfirst\<close> of
  the base label, a space and the language code in square brackets; evaluated while
  the toggle is off or unset it is the base label unchanged.
\<close>

theorem generated_label_evaluation:
  assumes "i < length (languages self)"
    and "dict_get (tf_specific self) (languages self ! i) Map.empty ''verbose_name'' = None"
  shows "\<exists>label.
      sf_kwargs (snd (registered (fst (contribute_to_class self get_language cls name))
                        ! (length (registered cls) + i))) ''verbose_name'' = Some label
    \<and> evaluate capfirst (Some True) label
        = capfirst (base_label self name) @ '' ['' @ languages self ! i @ '']''
    \<and> evaluate capfirst (Some False) label = base_label self name
    \<and> evaluate capfirst None label = base_label self name"
proof -
  let ?kw = "snd (dict_pop (proto_kwargs (tf_field self)) ''verbose_name'' name)"
  let ?l = "languages self ! i"
  have "(map_option Plain \<circ> (?kw ++ dict_get (tf_specific self) ?l Map.empty)) ''verbose_name'' = None"
    using assms(2) by (simp add: map_add_def dict_pop_snd)
  then have "sf_kwargs (snd (registered (fst (contribute_to_class self get_language cls name))
                        ! (length (registered cls) + i))) ''verbose_name''
      = Some (LazyLabel (base_label self name) ?l)"
    using assms(1)
    by (simp add: registered_contribute nth_append length_generate generate_nth setdefault_def
                  verbose_name_maybe_language_code_def base_label_def del: o_apply)
  then show ?thesis
    by (simp add: verbose_name_fn_def ctxvar_get_def)
qed

theorem generated_label_evaluation_witness:
  "0 < length (languages example_field)
   \<and> dict_get (tf_specific example_field) (languages example_field ! 0) Map.empty ''verbose_name'' = None
   \<and> sf_kwargs (snd (registered (fst (contribute_to_class example_field None example_class ''title'')) ! 0))
        ''verbose_name'' = Some (LazyLabel ''title'' ''en'')
   \<and> evaluate capfirst_ascii (Some True) (LazyLabel ''title'' ''en'') = ''Title [en]''
   \<and> evaluate capfirst_ascii (Some False) (LazyLabel ''title'' ''en'') = ''title''
   \<and> evaluate capfirst_ascii None (LazyLabel ''title'' ''en'') = ''title''"
proof -
  have c: "capfirst_ascii ''title'' = ''Title''" by code_simp
  have b: "base_label example_field ''title'' = ''title''"
    by (simp add: base_label_def example_field_def TranslatedField_init_def example_proto_def dict_get_def)
  have h1: "0 < length (languages example_field)" by (simp add: example_languages)
  have h2: "dict_get (tf_specific example_field) (languages example_field ! 0) Map.empty ''verbose_name'' = None"
    by (simp add: example_field_def TranslatedField_init_def dict_get_def)
  obtain label where
    l: "sf_kwargs (snd (registered (fst (contribute_to_class example_field None example_class ''title'')) ! 0))
          ''verbose_name'' = Some label"
    and on: "evaluate capfirst_ascii (Some True) label = ''Title [en]''"
    and off: "evaluate capfirst_ascii (Some False) label = ''title''"
    and unset: "evaluate capfirst_ascii None label = ''title''"
    using generated_label_evaluation [OF h1 h2, of None example_class "''title''" capfirst_ascii]
    by (auto simp: b c example_languages example_class_def)
  have "label = LazyLabel ''title'' ''en''"
  proof (cases label)
    case (Plain x)
    with on off show ?thesis by simp
  next
    case (LazyLabel vn lc)
    with on off show ?thesis by (simp add: verbose_name_fn_def ctxvar_get_def c)
  qed
  with l on off unset h1 h2 show ?thesis by simp
qed

section \<open>The display toggle scope\<close>

lemma show_language_code_enter:
  "show_language_code show body c =
     (case body (Some show) of (Inl e, c2) \<Rightarrow> (Inl e, c2) | (Inr v, c2) \<Rightarrow> (Inr v, c))"
  by (simp add: show_language_code_def ctxvar_set_def ctxvar_reset_def split: prod.splits sum.splits)

lemma show_language_code_return:
  "body (Some show) = (Inr v, c2) \<Longrightarrow> show_language_code show body c = (Inr v, c)"
  by (simp add: show_language_code_enter)

text \<open>
  Claim C1 at an input where the wrapped operation raises: the toggle was unset, the
  scope is entered with \<open>True\<close>, the operation raises. The exception propagates and
  the toggle stays \<open>True\<close>; it is not put back to unset.
\<close>

theorem show_language_code_raise_leaves_toggle:
  "show_language_code True raising_body None = (Inl ''Http404'', Some True)
   \<and> snd (show_language_code True raising_body None) \<noteq> None"
  by (simp add: show_language_code_enter raising_body_def)

section \<open>Keyword filtering\<close>

lemma unsupported_nonempty:
  "unsupported params kwargs \<noteq> [] \<longleftrightarrow> (\<exists>key \<in> fst ` set kwargs. key \<notin> set params)"
  by (auto simp: unsupported_def filter_empty_conv)

lemma filter_all_supported:
  "\<forall>key \<in> fst ` set kwargs. key \<in> set params \<Longrightarrow>
     [(key, v) \<leftarrow> kwargs. key \<in> set params] = kwargs"
  by (induction kwargs) auto

lemma optional_keywords_other:
  "optional_keywords Action_other fn args kwargs =
     (Inr (fn_call fn args [(key, v) \<leftarrow> kwargs. key \<in> set (fn_params fn)]),
      if unsupported (fn_params fn) kwargs \<noteq> [] then [unsupported_warning fn kwargs] else [])"
  by (simp add: optional_keywords_def Let_def)

lemma optional_keywords_error:
  "unsupported (fn_params fn) kwargs \<noteq> [] \<Longrightarrow>
     optional_keywords Action_error fn args kwargs = (Inl (unsupported_warning fn kwargs), [])"
  by (simp add: optional_keywords_def Let_def)

lemma optional_keywords_supported:
  "unsupported (fn_params fn) kwargs = [] \<Longrightarrow>
     optional_keywords action fn args kwargs =
       (Inr (fn_call fn args [(key, v) \<leftarrow> kwargs. key \<in> set (fn_params fn)]), [])"
  by (simp add: optional_keywords_def Let_def)

lemma example_factory_params: "fn_params example_factory = [''name'', ''field'']"
  by (simp add: example_factory_def)

text \<open>
  Claim C8, as stated, fails: when the warnings filter has the action \<open>error\<close> for the
  warning, a factory that declares \<open>name\<close> and \<open>field\<close>, given the keyword \<open>legacy\<close> as
  well, is not called: the helper raises the \<open>DeprecationWarning\<close>.
\<close>

theorem attrfactory_warning_raises:
  "fn_params example_factory = [''name'', ''field'']
   \<and> optional_keywords Action_error example_factory [''title'']
        [(''field'', ''f''), (''legacy'', ''x'')]
       = (Inl (''DeprecationWarning'', ''my_getter has unsupported arguments: legacy''), [])"
proof -
  have "optional_keywords Action_error example_factory [''title'']
        [(''field'', ''f''), (''legacy'', ''x'')]
       = (Inl (''DeprecationWarning'', ''my_getter has unsupported arguments: legacy''), [])"
    by code_simp
  then show ?thesis by (simp add: example_factory_params)
qed

text \<open>
  Claim C8, amended. When the warnings filter does not turn the warning into an
  exception, the helper calls the factory with the positional arguments and exactly
  the supplied keywords whose names are declared parameters, and returns what the
  factory returns; it issues a warning if and only if some supplied keyword is not a
  declared parameter, and that warning is a \<open>DeprecationWarning\<close>. When every supplied
  keyword is a declared parameter, the factory is called with all of them and no
  warning is issued, whatever the filter. When the filter's action is \<open>error\<close> and some
  supplied keyword is not a declared parameter, the helper raises the
  \<open>DeprecationWarning\<close> and the factory is not called.
\<close>

theorem attrfactory_keywords_filtered:
  "(action \<noteq> Action_error \<longrightarrow>
      fst (optional_keywords action fn args kwargs)
        = Inr (fn_call fn args [(key, v) \<leftarrow> kwargs. key \<in> set (fn_params fn)])
    \<and> (snd (optional_keywords action fn args kwargs) \<noteq> []
         \<longleftrightarrow> (\<exists>key \<in> fst ` set kwargs. key \<notin> set (fn_params fn)))
    \<and> (\<forall>w \<in> set (snd (optional_keywords action fn args kwargs)). fst w = ''DeprecationWarning''))
   \<and> set [(key, v) \<leftarrow> kwargs. key \<in> set (fn_params fn)]
       = {(key, v). (key, v) \<in> set kwargs \<and> key \<in> set (fn_params fn)}
   \<and> ((\<forall>key \<in> fst ` set kwargs. key \<in> set (fn_params fn)) \<longrightarrow>
        optional_keywords action fn args kwargs = (Inr (fn_call fn args kwargs), []))
   \<and> (action = Action_error \<and> (\<exists>key \<in> fst ` set kwargs. key \<notin> set (fn_params fn)) \<longrightarrow>
        optional_keywords action fn args kwargs = (Inl (unsupported_warning fn kwargs), [])
        \<and> fst (unsupported_warning fn kwargs) = ''DeprecationWarning'')"
proof (intro conjI impI)
  assume "action \<noteq> Action_error"
  then have o: "action = Action_other" by (cases action) auto
  show "fst (optional_keywords action fn args kwargs)
        = Inr (fn_call fn args [(key, v) \<leftarrow> kwargs. key \<in> set (fn_params fn)])"
    by (simp add: o optional_keywords_other)
  show "snd (optional_keywords action fn args kwargs) \<noteq> []
         \<longleftrightarrow> (\<exists>key \<in> fst ` set kwargs. key \<notin> set (fn_params fn))"
    unfolding o optional_keywords_other unsupported_nonempty [symmetric] by simp
  show "\<forall>w \<in> set (snd (optional_keywords action fn args kwargs)). fst w = ''DeprecationWarning''"
    unfolding o optional_keywords_other by (simp add: unsupported_warning_def)
next
  show "set [(key, v) \<leftarrow> kwargs. key \<in> set (fn_params fn)]
       = {(key, v). (key, v) \<in> set kwargs \<and> key \<in> set (fn_params fn)}"
    by auto
next
  assume all: "\<forall>key \<in> fst ` set kwargs. key \<in> set (fn_params fn)"
  then have "unsupported (fn_params fn) kwargs = []"
    using unsupported_nonempty [of "fn_params fn" kwargs] by blast
  then show "optional_keywords action fn args kwargs = (Inr (fn_call fn args kwargs), [])"
    using filter_all_supported [OF all] by (simp add: optional_keywords_supported)
next
  assume "action = Action_error \<and> (\<exists>key \<in> fst ` set kwargs. key \<notin> set (fn_params fn))"
  then show "optional_keywords action fn args kwargs = (Inl (unsupported_warning fn kwargs), [])"
    using unsupported_nonempty [of "fn_params fn" kwargs] by (simp add: optional_keywords_error)
next
  show "fst (unsupported_warning fn kwargs) = ''DeprecationWarning''"
    by (simp add: unsupported_warning_def)
qed

lemma example_factory_warns:
  "optional_keywords Action_other example_factory [''title''] [(''field'', ''f''), (''legacy'', ''x'')]
     = (Inr [''title'', ''field''],
        [(''DeprecationWarning'', ''my_getter has unsupported arguments: legacy'')])"
  by code_simp

theorem attrfactory_keywords_filtered_witness:
  "optional_keywords Action_other example_factory [''title''] [(''field'', ''f''), (''legacy'', ''x'')]
     = (Inr [''title'', ''field''],
        [(''DeprecationWarning'', ''my_getter has unsupported arguments: legacy'')])
   \<and> fn_params example_factory = [''name'', ''field'']
   \<and> optional_keywords Action_other example_factory [''title''] [(''field'', ''f'')]
       = (Inr [''title'', ''field''], [])
   \<and> optional_keywords Action_error example_factory [''title''] [(''field'', ''f'')]
       = (Inr [''title'', ''field''], [])
   \<and> fst (optional_keywords Action_error example_factory [''title'']
            [(''field'', ''f''), (''legacy'', ''x'')])
       = Inl (unsupported_warning example_factory [(''field'', ''f''), (''legacy'', ''x'')])"
proof -
  have q: "fn_params example_factory = [''name'', ''field'']"
    by (rule example_factory_params)
  have c: "fn_call example_factory [''title''] [(''field'', ''f'')] = [''title'', ''field'']"
    by (simp add: example_factory_def)
  have all: "\<forall>key \<in> fst ` set [(''field'', ''f'')]. key \<in> set (fn_params example_factory)"
    by (simp add: q)
  have some: "\<exists>key \<in> fst ` set [(''field'', ''f''), (''legacy'', ''x'')].
                key \<notin> set (fn_params example_factory)"
    by (simp add: q)
  have n1: "optional_keywords Action_other example_factory [''title''] [(''field'', ''f'')]
       = (Inr [''title'', ''field''], [])"
    using attrfactory_keywords_filtered
            [of Action_other example_factory "[''title'']" "[(''field'', ''f'')]"] all c
    by simp
  have n2: "optional_keywords Action_error example_factory [''title''] [(''field'', ''f'')]
       = (Inr [''title'', ''field''], [])"
    using attrfactory_keywords_filtered
            [of Action_error example_factory "[''title'']" "[(''field'', ''f'')]"] all c
    by simp
  have r: "fst (optional_keywords Action_error example_factory [''title'']
            [(''field'', ''f''), (''legacy'', ''x'')])
       = Inl (unsupported_warning example_factory [(''field'', ''f''), (''legacy'', ''x'')])"
    using attrfactory_keywords_filtered
            [of Action_error example_factory "[''title'']" "[(''field'', ''f''), (''legacy'', ''x'')]"]
          some
    by simp
  show ?thesis using example_factory_warns q n1 n2 r by blast
qed

end
